theory Spec2Isabelle
  imports Main "HOL-Library.Sublist"
begin

section \<open>Python strings\<close>

text \<open>
  A Python \<^verbatim>\<open>str\<close> is modelled as a \<^typ>\<open>string\<close> whose characters are the code points
  below 256. The three string operations the two modules use are \<^verbatim>\<open>in\<close> (substring
  test), \<^verbatim>\<open>lower()\<close> and \<^verbatim>\<open>split()\<close> / \<^verbatim>\<open>strip()\<close> without arguments.
\<close>

fun is_prefix :: "'a list \<Rightarrow> 'a list \<Rightarrow> bool" where
  "is_prefix [] ys = True"
| "is_prefix (x # xs) [] = False"
| "is_prefix (x # xs) (y # ys) = (x = y \<and> is_prefix xs ys)"

text \<open>\<open>str_in p s\<close> is Python's \<^verbatim>\<open>p in s\<close>: \<open>p\<close> occurs in \<open>s\<close> as a contiguous run.\<close>

fun str_in :: "'a list \<Rightarrow> 'a list \<Rightarrow> bool" where
  "str_in p [] = is_prefix p []"
| "str_in p (c # cs) = (is_prefix p (c # cs) \<or> str_in p cs)"

text \<open>
  \<^verbatim>\<open>str.lower()\<close> on code points below 256: the ASCII capitals and the Latin-1 capitals
  (U+00C0 to U+00DE without the multiplication sign U+00D7) move up by 32.
\<close>

definition lower_char :: "char \<Rightarrow> char" where
  "lower_char c =
     (let n = (of_char c :: nat)
      in if (65 \<le> n \<and> n \<le> 90) \<or> (192 \<le> n \<and> n \<le> 222 \<and> n \<noteq> 215)
         then char_of (n + 32) else c)"

definition lower :: "string \<Rightarrow> string" where
  "lower s = map lower_char s"

text \<open>
  The characters \<^verbatim>\<open>str.split()\<close> and \<^verbatim>\<open>str.strip()\<close> treat as whitespace, below 256:
  tab to carriage return, the four separators U+001C to U+001F, the space, U+0085 and
  U+00A0.
\<close>

definition is_space :: "char \<Rightarrow> bool" where
  "is_space c =
     (let n = (of_char c :: nat)
      in (9 \<le> n \<and> n \<le> 13) \<or> (28 \<le> n \<and> n \<le> 32) \<or> n = 133 \<or> n = 160)"

fun split_acc :: "string \<Rightarrow> string \<Rightarrow> string list" where
  "split_acc cur [] = (if cur = [] then [] else [cur])"
| "split_acc cur (c # cs) =
     (if is_space c
      then (if cur = [] then split_acc [] cs else cur # split_acc [] cs)
      else split_acc (cur @ [c]) cs)"

definition split :: "string \<Rightarrow> string list" where
  "split s = split_acc [] s"

definition strip :: "string \<Rightarrow> string" where
  "strip s = rev (dropWhile is_space (rev (dropWhile is_space s)))"

section \<open>The safety gate (kshitij\_safety\_gate/safety\_gate.py)\<close>

datatype RiskLevel = SAFE | LOW | MEDIUM | HIGH | CRITICAL

text \<open>
  The settings dictionary handed to \<^verbatim>\<open>SafetyGate.__init__\<close>: a key that is absent is
  \<open>None\<close>, and \<^verbatim>\<open>config.get\<close> supplies the default.
\<close>

record gate_config =
  cfg_enabled :: "bool option"
  cfg_sandbox_mode :: "bool option"
  cfg_dangerous_commands :: "string list option"
  cfg_sensitive_paths :: "string list option"

record SafetyGate =
  enabled :: bool
  sandbox_mode :: bool
  dangerous_commands :: "string list"
  sensitive_paths :: "string list"

definition empty_config :: gate_config where
  "empty_config =
     \<lparr>cfg_enabled = None, cfg_sandbox_mode = None,
      cfg_dangerous_commands = None, cfg_sensitive_paths = None\<rparr>"

definition SafetyGate_init :: "gate_config option \<Rightarrow> SafetyGate" where
  "SafetyGate_init config =
     (let config = (case config of None \<Rightarrow> empty_config | Some c \<Rightarrow> c)
      in \<lparr>enabled = (case cfg_enabled config of None \<Rightarrow> True | Some b \<Rightarrow> b),
          sandbox_mode = (case cfg_sandbox_mode config of None \<Rightarrow> False | Some b \<Rightarrow> b),
          dangerous_commands = (case cfg_dangerous_commands config of None \<Rightarrow> [] | Some l \<Rightarrow> l),
          sensitive_paths = (case cfg_sensitive_paths config of None \<Rightarrow> [] | Some l \<Rightarrow> l)\<rparr>)"

record Verdict =
  allowed :: bool
  risk_level :: RiskLevel
  reason :: string
  warnings :: "string list"

definition is_critical_command :: "SafetyGate \<Rightarrow> string \<Rightarrow> bool \<times> string" where
  "is_critical_command self command =
     (let command_lower = lower command
      in if str_in '':(){'' command \<or> str_in '':|:&'' command
         then (True, ''Fork bomb detected - would crash system'')
         else if str_in ''rm -rf /'' command \<or> str_in ''rm -fr /'' command
         then (True, ''Attempting to delete root directory'')
         else if str_in ''mkfs'' command_lower \<or> str_in ''format'' command_lower
         then (True, ''Attempting to format hard drive'')
         else if str_in ''dd if=/dev/zero'' command_lower \<or> str_in ''dd if=/dev/random'' command_lower
         then (True, ''Attempting to overwrite hard drive'')
         else if list_ex (\<lambda>path. str_in path command_lower) [''/boot'', ''/dev/sda'', ''/dev/nvme'']
                 \<and> (str_in ''rm'' command_lower \<or> str_in ''dd'' command_lower \<or> str_in ''>'' command)
         then (True, ''Attempting to destroy boot partition'')
         else (case find (\<lambda>dangerous. str_in (lower dangerous) command_lower) (dangerous_commands self) of
                 Some dangerous \<Rightarrow> (True, ''Matches dangerous pattern: '' @ dangerous)
               | None \<Rightarrow> (False, '''')))"

definition is_high_risk_command :: "SafetyGate \<Rightarrow> string \<Rightarrow> bool \<times> string" where
  "is_high_risk_command self command =
     (let command_lower = lower command
      in if (str_in ''rm -rf'' command \<or> str_in ''rm -fr'' command) \<and> \<not> str_in ''/'' command
         then (True, ''Recursive delete detected'')
         else if str_in ''chmod -r'' command_lower \<or> str_in ''chown -r'' command_lower
         then (True, ''Recursive permission change detected'')
         else if str_in ''kill'' command_lower \<and> (str_in '' 1'' command \<or> str_in ''-9 1'' command)
         then (True, ''Attempting to kill init process'')
         else if list_ex (\<lambda>path. str_in path command_lower)
                   [''c:'' @ CHR 0x5C # ''windows'', ''c:'' @ CHR 0x5C # ''program files'']
                 \<and> (str_in ''rm'' command_lower \<or> str_in ''del'' command_lower)
         then (True, ''Attempting to delete Windows system folder'')
         else (False, ''''))"

definition is_medium_risk_command :: "SafetyGate \<Rightarrow> string \<Rightarrow> bool \<times> string" where
  "is_medium_risk_command self command =
     (let command_lower = lower command
      in if (str_in ''rm'' command_lower \<or> str_in ''del'' command_lower) \<and> str_in ''*'' command
         then (True, ''Deleting multiple files with wildcard'')
         else if str_in ''chmod'' command_lower \<or> str_in ''icacls'' command_lower
         then (True, ''Changing file permissions'')
         else (case find (\<lambda>sensitive_path. str_in (lower sensitive_path) command_lower)
                      (sensitive_paths self) of
                 Some sensitive_path \<Rightarrow> (True, ''Accessing sensitive path: '' @ sensitive_path)
               | None \<Rightarrow> (False, '''')))"

definition needs_confirmation :: "SafetyGate \<Rightarrow> string \<Rightarrow> bool \<times> string" where
  "needs_confirmation self command =
     (let command_lower = lower command;
          parts = split command_lower
      in case parts of
           [] \<Rightarrow> (False, '''')
         | cmd # rest \<Rightarrow>
             if cmd \<in> set [''rm'', ''del'', ''kill'', ''chmod'', ''chown'', ''rmdir'']
             then (True, [CHR 0x27] @ cmd @ [CHR 0x27] @ '' command requires confirmation'')
             else (False, ''''))"

definition evaluate_command :: "SafetyGate \<Rightarrow> string \<Rightarrow> Verdict" where
  "evaluate_command self command =
     (if \<not> enabled self
      then \<lparr>allowed = True, risk_level = SAFE, reason = ''Safety gate disabled'', warnings = []\<rparr>
      else let (is_critical, critical_reason) = is_critical_command self command in
      if is_critical
      then \<lparr>allowed = False, risk_level = CRITICAL, reason = critical_reason,
            warnings = [''This command could destroy your system!'']\<rparr>
      else let (is_high_risk, high_risk_reason) = is_high_risk_command self command in
      if is_high_risk
      then \<lparr>allowed = False, risk_level = HIGH, reason = high_risk_reason,
            warnings = [''This command is very dangerous!'']\<rparr>
      else let (is_medium_risk, medium_risk_reason) = is_medium_risk_command self command in
      if is_medium_risk
      then \<lparr>allowed = True, risk_level = MEDIUM, reason = '''', warnings = [medium_risk_reason]\<rparr>
      else let (needs_confirm, confirm_reason) = needs_confirmation self command in
      if needs_confirm
      then \<lparr>allowed = True, risk_level = LOW, reason = '''', warnings = [confirm_reason]\<rparr>
      else \<lparr>allowed = True, risk_level = SAFE, reason = '''', warnings = []\<rparr>)"

section \<open>The command executor (shiv\_command\_execution/command\_executor.py)\<close>

subsection \<open>Exceptions and the Python helpers that can raise\<close>

text \<open>
  An exception is a value: \<open>IndexError\<close> for a list index out of range, \<open>OSError\<close> with
  its message for whatever \<^verbatim>\<open>subprocess.Popen\<close> raises. A function that can raise
  returns \<open>py_error + 'a\<close>, with \<open>Inl\<close> the exception.
\<close>

datatype py_error = IndexError | OSError string

fun str_of_error :: "py_error \<Rightarrow> string" where
  "str_of_error IndexError = ''list index out of range''"
| "str_of_error (OSError msg) = msg"

definition py_index :: "'a list \<Rightarrow> int \<Rightarrow> py_error + 'a" where
  "py_index xs i =
     (let k = (if i < 0 then i + int (length xs) else i)
      in if k < 0 \<or> int (length xs) \<le> k then Inl IndexError else Inr (xs ! nat k))"

definition bind_error :: "py_error + 'a \<Rightarrow> ('a \<Rightarrow> py_error + 'b) \<Rightarrow> py_error + 'b" where
  "bind_error m f = (case m of Inl e \<Rightarrow> Inl e | Inr x \<Rightarrow> f x)"

fun join :: "string \<Rightarrow> string list \<Rightarrow> string" where
  "join sep [] = ''''"
| "join sep [x] = x"
| "join sep (x # y # ys) = x @ sep @ join sep (y # ys)"

text \<open>\<^verbatim>\<open>str(n)\<close> for an integer, as the f-string of the timeout notice formats it.\<close>

definition digit_char :: "nat \<Rightarrow> char" where
  "digit_char d = char_of (48 + d)"

function str_nat :: "nat \<Rightarrow> string" where
  "str_nat n = (if n < 10 then [digit_char n] else str_nat (n div 10) @ [digit_char (n mod 10)])"
  by pat_completeness auto
termination
  by (relation "measure (\<lambda>n. n)") auto

definition str_int :: "int \<Rightarrow> string" where
  "str_int i = (if i < 0 then ''-'' @ str_nat (nat (- i)) else str_nat (nat i))"

subsection \<open>Translation of Linux commands to PowerShell\<close>

definition linux_commands :: "string list" where
  "linux_commands =
     [''ls'', ''cat'', ''pwd'', ''touch'', ''mkdir'', ''rm'', ''cp'', ''mv'',
      ''echo'', ''clear'', ''ps'', ''kill'', ''grep'', ''find'', ''df'',
      ''whoami'', ''hostname'', ''date'', ''head'', ''tail'', ''wc'']"

definition is_linux_command :: "string \<Rightarrow> py_error + bool" where
  "is_linux_command command =
     bind_error (if strip command \<noteq> [] then py_index (split (strip command)) 0 else Inr '''')
       (\<lambda>first_word. Inr (first_word \<in> set linux_commands))"

definition translate_to_windows :: "string \<Rightarrow> py_error + string" where
  \<open>translate_to_windows command =
     (let parts = split (strip command)
      in if parts = [] then Inr command
         else bind_error (py_index parts 0) (\<lambda>cmd.
           let args = (if length parts > 1 then drop 1 parts else [])
           in if cmd = ''ls'' then Inr ''Get-ChildItem''
              else if cmd = ''pwd'' then Inr ''Get-Location''
              else if cmd = ''cat'' then
                (if args \<noteq> []
                 then bind_error (py_index args 0) (\<lambda>a0. Inr (''Get-Content "'' @ a0 @ ''"''))
                 else Inr ''Write-Host "cat: missing file name"'')
              else if cmd = ''head'' then
                (if args \<noteq> []
                 then bind_error (py_index args (- 1)) (\<lambda>a.
                        Inr (''Get-Content "'' @ a @ ''" | Select-Object -First 10''))
                 else Inr ''Write-Host "head: missing file name"'')
              else if cmd = ''tail'' then
                (if args \<noteq> []
                 then bind_error (py_index args (- 1)) (\<lambda>a.
                        Inr (''Get-Content "'' @ a @ ''" | Select-Object -Last 10''))
                 else Inr ''Write-Host "tail: missing file name"'')
              else if cmd = ''touch'' then
                (if args \<noteq> []
                 then bind_error (py_index args 0) (\<lambda>filename.
                        Inr (''if (Test-Path "'' @ filename @ ''") { (Get-Item "'' @ filename
                             @ ''").LastWriteTime = Get-Date } else { New-Item -ItemType File "''
                             @ filename @ ''" | Out-Null }''))
                 else Inr ''Write-Host "touch: missing file name"'')
              else if cmd = ''mkdir'' then
                (if args \<noteq> []
                 then bind_error (py_index args 0) (\<lambda>a0.
                        Inr (''New-Item -ItemType Directory "'' @ a0 @ ''" -Force''))
                 else Inr ''Write-Host "mkdir: missing directory name"'')
              else if cmd = ''rm'' then
                (if args \<noteq> []
                 then bind_error (py_index args 0) (\<lambda>a0. Inr (''Remove-Item "'' @ a0 @ ''" -Force''))
                 else Inr ''Write-Host "rm: missing file name"'')
              else if cmd = ''cp'' then
                (if length args \<ge> 2
                 then bind_error (py_index args 0) (\<lambda>a0. bind_error (py_index args 1) (\<lambda>a1.
                        Inr (''Copy-Item "'' @ a0 @ ''" "'' @ a1 @ ''"'')))
                 else Inr ''Write-Host "cp: need source and destination"'')
              else if cmd = ''mv'' then
                (if length args \<ge> 2
                 then bind_error (py_index args 0) (\<lambda>a0. bind_error (py_index args 1) (\<lambda>a1.
                        Inr (''Move-Item "'' @ a0 @ ''" "'' @ a1 @ ''"'')))
                 else Inr ''Write-Host "mv: need source and destination"'')
              else if cmd = ''echo'' then
                (if args \<noteq> [] then Inr (''Write-Output '' @ join '' '' args)
                 else Inr ''Write-Output ""'')
              else if cmd = ''clear'' then Inr ''Clear-Host''
              else if cmd = ''ps'' then Inr ''Get-Process | Select-Object ProcessName,Id,CPU''
              else if cmd = ''kill'' then
                (if args \<noteq> []
                 then bind_error (py_index args 0) (\<lambda>a0. Inr (''Stop-Process -Id '' @ a0 @ '' -Force''))
                 else Inr ''Write-Host "kill: missing process ID"'')
              else if cmd = ''grep'' then
                (if args \<noteq> [] then Inr (''Select-String '' @ join '' '' args)
                 else Inr ''Write-Host "grep: missing search pattern"'')
              else if cmd = ''find'' then
                bind_error (if args \<noteq> [] then py_index args 0 else Inr ''.'') (\<lambda>path.
                  Inr (''Get-ChildItem -Path "'' @ path @ ''" -Recurse''))
              else if cmd = ''df'' then Inr ''Get-PSDrive -PSProvider FileSystem''
              else if cmd = ''whoami'' then Inr ''$env:USERNAME''
              else if cmd = ''hostname'' then Inr ''$env:COMPUTERNAME''
              else if cmd = ''date'' then Inr ''Get-Date''
              else if cmd = ''wc'' then
                (if args \<noteq> []
                 then bind_error (py_index args 0) (\<lambda>a0.
                        Inr (''Get-Content "'' @ a0 @ ''" | Measure-Object -Line -Word -Character''))
                 else Inr ''Write-Host "wc: missing file name"'')
              else Inr command))\<close>

definition should_fallback_to_powershell :: "string option \<Rightarrow> bool" where
  "should_fallback_to_powershell stderr =
     (case stderr of
        None \<Rightarrow> False
      | Some err \<Rightarrow>
          if err = [] then False
          else let message = lower err
               in list_ex (\<lambda>token. str_in token message)
                    [''bash: not found'', ''no installed distributions'',
                     ''wsl.exe was not found'', ''the system cannot find the file specified''])"

subsection \<open>The operating system, as \<^verbatim>\<open>execute\<close> sees it\<close>

text \<open>
  What one \<^verbatim>\<open>subprocess.Popen\<close> followed by \<^verbatim>\<open>communicate\<close> can do:
  \<^item> \<open>Raised msg\<close>: the spawn (or reading its streams) raised an exception whose
    \<^verbatim>\<open>str\<close> is \<open>msg\<close>;
  \<^item> \<open>Exited out err rc\<close>: the child ended within the timeout with return code \<open>rc\<close>;
  \<^item> \<open>TimedOut out err rc\<close>: \<^verbatim>\<open>communicate\<close> raised \<^verbatim>\<open>TimeoutExpired\<close>; \<open>out\<close> and
    \<open>err\<close> are what the second \<^verbatim>\<open>communicate\<close>, after \<^verbatim>\<open>kill\<close>, returned, and \<open>rc\<close> is
    the return code the killed child reports.
  The streams are \<open>None\<close> when they were not captured.
\<close>

datatype proc_outcome =
    Raised string
  | Exited "string option" "string option" int
  | TimedOut "string option" "string option" int

text \<open>
  The environment: \<open>clock n\<close> is what the \<open>n\<close>-th call of \<^verbatim>\<open>datetime.now()\<close> returns (in
  microseconds), and \<open>popen n argv capture_output cwd timeout\<close> is the outcome of the
  process started after \<open>n\<close> clock readings.
\<close>

record os_env =
  clock :: "nat \<Rightarrow> int"
  popen :: "nat \<Rightarrow> string list \<Rightarrow> bool \<Rightarrow> string option \<Rightarrow> int \<Rightarrow> proc_outcome"

text \<open>
  The dictionary \<^verbatim>\<open>execute\<close> returns. Times are in microseconds; \<open>duration\<close> is
  \<^verbatim>\<open>(end_time - start_time).total_seconds()\<close>, kept as the difference in microseconds.
\<close>

record ExecutionResult =
  command :: string
  "output" :: string
  error :: string
  exit_code :: int
  success :: bool
  duration :: int
  start_time :: int
  end_time :: int

record executor_config =
  cfg_timeout :: "int option"
  cfg_use_wsl :: "bool option"

record CommandExecutor =
  self_timeout :: int
  self_use_wsl :: bool
  wsl_available :: bool
  execution_history :: "ExecutionResult list"

text \<open>
  \<^verbatim>\<open>__init__\<close>, with the result of the probe \<^verbatim>\<open>_detect_wsl()\<close> as the parameter
  \<open>detected\<close>: a request for WSL is dropped when the probe found none.
\<close>

definition CommandExecutor_init :: "executor_config option \<Rightarrow> bool \<Rightarrow> CommandExecutor" where
  "CommandExecutor_init config detected =
     (let timeout = (case config of None \<Rightarrow> 300
                     | Some c \<Rightarrow> (case cfg_timeout c of None \<Rightarrow> 300 | Some t \<Rightarrow> t));
          use_wsl = (case config of None \<Rightarrow> False
                     | Some c \<Rightarrow> (case cfg_use_wsl c of None \<Rightarrow> False | Some b \<Rightarrow> b))
      in \<lparr>self_timeout = timeout,
          self_use_wsl = (if use_wsl \<and> \<not> detected then False else use_wsl),
          wsl_available = detected,
          execution_history = []\<rparr>)"

subsection \<open>\<^verbatim>\<open>CommandExecutor.execute\<close>\<close>

text \<open>The idiom \<^verbatim>\<open>s or ""\<close> on a stream that is \<^verbatim>\<open>None\<close> when it was not captured.\<close>

definition or_empty :: "string option \<Rightarrow> string" where
  "or_empty s = (case s of None \<Rightarrow> [] | Some x \<Rightarrow> x)"

text \<open>
  The state is the executor object and the number of clock readings made so far. The
  translation step stands before the \<^verbatim>\<open>try\<close>, so an exception there leaves \<^verbatim>\<open>execute\<close>
  (\<open>Inl\<close>); everything from the spawn on is inside the \<^verbatim>\<open>try\<close>, the retry through
  PowerShell included, and an exception there becomes the result of the \<^verbatim>\<open>except\<close> branch,
  which returns without touching \<open>execution_history\<close>. The retry reads the clock once
  before it can raise, so the \<^verbatim>\<open>except\<close> branch after it reads the clock at \<open>t + 2\<close>.
  Local variables that share their name with a key of the dictionary carry a prime.
\<close>

function execute ::
  "os_env \<Rightarrow> CommandExecutor \<times> nat \<Rightarrow> string \<Rightarrow> string option \<Rightarrow> int option \<Rightarrow> bool
     \<Rightarrow> bool option \<Rightarrow> py_error + (ExecutionResult \<times> CommandExecutor \<times> nat)" where
  "execute os (self, t) cmdline working_dir timeout capture_output use_wsl =
     (let start_time' = clock os t;
          timeout = (case timeout of None \<Rightarrow> self_timeout self
                     | Some x \<Rightarrow> if x = 0 then self_timeout self else x);
          use_wsl = (case use_wsl of None \<Rightarrow> self_use_wsl self | Some b \<Rightarrow> b);
          use_wsl = (if use_wsl \<and> \<not> wsl_available self then False else use_wsl);
          original_command = cmdline
      in bind_error (if \<not> use_wsl then is_linux_command cmdline else Inr False) (\<lambda>translate.
         bind_error (if translate then translate_to_windows cmdline else Inr cmdline) (\<lambda>command'.
         let popen_cmd = (if use_wsl then [''wsl'', ''bash'', ''-lc'', command']
                          else [''powershell.exe'', ''-Command'', command']);
             except = (\<lambda>k e.
               let end_time' = clock os k;
                   duration' = end_time' - start_time'
               in Inr (\<lparr>command = original_command, output = '''', error = str_of_error e,
                         exit_code = - 1, success = False, duration = duration',
                         start_time = start_time', end_time = end_time'\<rparr>,
                       self, k + 1))
         in case (case popen os (t + 1) popen_cmd capture_output working_dir timeout of
                    Raised msg \<Rightarrow> Inl (OSError msg)
                  | Exited stdout stderr returncode \<Rightarrow> Inr (stdout, stderr, returncode)
                  | TimedOut stdout stderr returncode \<Rightarrow>
                      Inr (stdout,
                           Some (''Command timeout after '' @ str_int timeout @ '' seconds''
                                 @ [CHR 0x0A] @ or_empty stderr),
                           returncode)) of
              Inl e \<Rightarrow> except (t + 1) e
            | Inr (stdout, stderr, exit_code') \<Rightarrow>
                if use_wsl \<and> exit_code' \<noteq> 0 \<and> should_fallback_to_powershell stderr
                then (case execute os (self, t + 1) original_command working_dir (Some timeout)
                             capture_output (Some False) of
                        Inl e \<Rightarrow> except (t + 2) e
                      | Inr r \<Rightarrow> Inr r)
                else
                  let end_time' = clock os (t + 1);
                      duration' = end_time' - start_time';
                      result = \<lparr>command = original_command,
                                output = or_empty stdout,
                                error = or_empty stderr,
                                exit_code = exit_code', success = (exit_code' = 0),
                                duration = duration',
                                start_time = start_time', end_time = end_time'\<rparr>
                  in Inr (result,
                          self\<lparr>execution_history := execution_history self @ [result]\<rparr>,
                          t + 2))))"
  by pat_completeness auto
termination
  by (relation "measure (\<lambda>(os, (self, t), cmdline, working_dir, timeout, capture_output, use_wsl).
        if (case use_wsl of None \<Rightarrow> self_use_wsl self | Some b \<Rightarrow> b) \<and> wsl_available self
        then 1 else 0)") (auto split: option.splits if_splits)

declare execute.simps [simp del]

section \<open>Notions used to state the properties\<close>

text \<open>
  Names for what \<^verbatim>\<open>execute\<close> computes on its way: the leading token of a command, the
  timeout and the backend a call ends up with, the argument vectors of the two backends,
  the timeout notice, and the dictionary built from the streams and the return code.
\<close>

definition leading_token :: "string \<Rightarrow> string option" where
  "leading_token c = (case split (strip c) of [] \<Rightarrow> None | w # ws \<Rightarrow> Some w)"

definition effective_timeout :: "CommandExecutor \<Rightarrow> int option \<Rightarrow> int" where
  "effective_timeout self timeout =
     (case timeout of None \<Rightarrow> self_timeout self
      | Some x \<Rightarrow> if x = 0 then self_timeout self else x)"

definition effective_use_wsl :: "CommandExecutor \<Rightarrow> bool option \<Rightarrow> bool" where
  "effective_use_wsl self use_wsl =
     ((case use_wsl of None \<Rightarrow> self_use_wsl self | Some b \<Rightarrow> b) \<and> wsl_available self)"

text \<open>The command handed to PowerShell: translated when its leading token is in the table.\<close>

definition translated :: "string \<Rightarrow> string" where
  "translated c =
     (case leading_token c of
        None \<Rightarrow> c
      | Some w \<Rightarrow> if w \<in> set linux_commands
                  then (case translate_to_windows c of Inl e \<Rightarrow> c | Inr s \<Rightarrow> s) else c)"

definition powershell_argv :: "string \<Rightarrow> string list" where
  "powershell_argv c = [''powershell.exe'', ''-Command'', translated c]"

definition wsl_argv :: "string \<Rightarrow> string list" where
  "wsl_argv c = [''wsl'', ''bash'', ''-lc'', c]"

definition timeout_notice :: "int \<Rightarrow> string" where
  "timeout_notice T = ''Command timeout after '' @ str_int T @ '' seconds'' @ [CHR 0x0A]"

text \<open>
  The dictionary of a call that read the clock at \<open>t\<close> and \<open>t + 1\<close>; with return code
  \<open>- 1\<close> it is the dictionary of the \<^verbatim>\<open>except\<close> branch.
\<close>

definition result_of :: "os_env \<Rightarrow> nat \<Rightarrow> string \<Rightarrow> string \<Rightarrow> string \<Rightarrow> int \<Rightarrow> ExecutionResult" where
  "result_of os t c out err rc =
     \<lparr>command = c, output = out, error = err, exit_code = rc, success = (rc = 0),
      duration = clock os (t + 1) - clock os t,
      start_time = clock os t, end_time = clock os (t + 1)\<rparr>"

definition logged :: "ExecutionResult \<Rightarrow> CommandExecutor \<Rightarrow> CommandExecutor" where
  "logged r self = self\<lparr>execution_history := execution_history self @ [r]\<rparr>"

text \<open>The outcome of the first spawn of a call, and whether it sends the call to the retry.\<close>

definition first_attempt ::
  "os_env \<Rightarrow> CommandExecutor \<times> nat \<Rightarrow> string \<Rightarrow> string option \<Rightarrow> int option \<Rightarrow> bool
     \<Rightarrow> bool option \<Rightarrow> proc_outcome" where
  "first_attempt os st c wd to cap uw =
     (case st of (self, t) \<Rightarrow>
        popen os (t + 1) (if effective_use_wsl self uw then wsl_argv c else powershell_argv c)
          cap wd (effective_timeout self to))"

definition fallback_fires ::
  "os_env \<Rightarrow> CommandExecutor \<times> nat \<Rightarrow> string \<Rightarrow> string option \<Rightarrow> int option \<Rightarrow> bool
     \<Rightarrow> bool option \<Rightarrow> bool" where
  "fallback_fires os st c wd to cap uw =
     (effective_use_wsl (fst st) uw \<and>
      (case first_attempt os st c wd to cap uw of
         Raised msg \<Rightarrow> False
       | Exited out err rc \<Rightarrow> rc \<noteq> 0 \<and> should_fallback_to_powershell err
       | TimedOut out err rc \<Rightarrow>
           rc \<noteq> 0 \<and> should_fallback_to_powershell
                       (Some (timeout_notice (effective_timeout (fst st) to) @ or_empty err))))"

text \<open>The number of arguments a table entry asks for before it builds its command.\<close>

definition required_args :: "string \<Rightarrow> nat" where
  "required_args tok =
     (if tok \<in> set [''cp'', ''mv''] then 2
      else if tok \<in> set [''cat'', ''head'', ''tail'', ''touch'', ''mkdir'', ''rm'', ''kill'',
                          ''grep'', ''wc''] then 1
      else 0)"

subsection \<open>Concrete gates, executors and environments\<close>

definition default_gate :: SafetyGate where
  "default_gate = SafetyGate_init None"

definition disabled_gate :: SafetyGate where
  "disabled_gate = SafetyGate_init (Some (empty_config\<lparr>cfg_enabled := Some False\<rparr>))"

definition executor_default :: CommandExecutor where
  "executor_default = CommandExecutor_init None False"

definition executor_wsl :: CommandExecutor where
  "executor_wsl =
     CommandExecutor_init (Some \<lparr>cfg_timeout = None, cfg_use_wsl = Some True\<rparr>) True"

text \<open>No backend can be launched: every spawn raises.\<close>

definition os_spawn_fails :: os_env where
  "os_spawn_fails =
     \<lparr>clock = (\<lambda>n. 1000 * int n),
      popen = (\<lambda>n argv cap wd T.
                 Raised ''[WinError 2] The system cannot find the file specified'')\<rparr>"


text \<open>WSL is installed without a distribution; PowerShell lists one file.\<close>

definition os_wsl_missing :: os_env where
  "os_wsl_missing =
     \<lparr>clock = (\<lambda>n. 1000 * int n),
      popen = (\<lambda>n argv cap wd T.
                 if argv = [''wsl'', ''bash'', ''-lc'', ''ls'']
                 then Exited (Some '''') (Some ''No installed distributions'') 1
                 else if argv = [''powershell.exe'', ''-Command'', ''Get-ChildItem'']
                 then Exited (Some ''a.txt'') (Some '''') 0
                 else Raised ''unexpected'')\<rparr>"


text \<open>
  A usage error for \<open>tok\<close>: the PowerShell command that prints one double-quoted message
  beginning with the name of the Linux command.
\<close>

definition usage_error_for :: "string \<Rightarrow> string \<Rightarrow> bool" where
  \<open>usage_error_for tok s =
     (let head = ''Write-Host "'' @ tok @ '': ''; rest = drop (length head) s
      in is_prefix head s \<and> rest \<noteq> [] \<and> last rest = CHR 0x22
         \<and> CHR 0x22 \<notin> set (butlast rest))\<close>

text \<open>
  What a call returns after a spawn with outcome \<open>oc\<close> that is not followed by the retry:
  the dictionary, the executor (with the dictionary appended to its history unless the
  spawn raised) and the number of clock readings.
\<close>

definition outcome_result ::
  "os_env \<Rightarrow> CommandExecutor \<Rightarrow> nat \<Rightarrow> string \<Rightarrow> int \<Rightarrow> proc_outcome
     \<Rightarrow> ExecutionResult \<times> CommandExecutor \<times> nat" where
  "outcome_result os self t c T oc =
     (case oc of
        Raised msg \<Rightarrow> (result_of os t c [] msg (- 1), self, t + 2)
      | Exited out err rc \<Rightarrow>
          (result_of os t c (or_empty out) (or_empty err) rc,
           logged (result_of os t c (or_empty out) (or_empty err) rc) self, t + 2)
      | TimedOut out err rc \<Rightarrow>
          (result_of os t c (or_empty out) (timeout_notice T @ or_empty err) rc,
           logged (result_of os t c (or_empty out) (timeout_notice T @ or_empty err) rc) self,
           t + 2))"

section \<open>Facts about the string operations\<close>

lemma is_prefix_iff: "is_prefix p s \<longleftrightarrow> prefix p s"
  by (induction p s rule: is_prefix.induct) simp_all

text \<open>\<open>str_in\<close> is the contiguous-sublist relation of the library.\<close>

lemma str_in_iff: "str_in p s \<longleftrightarrow> sublist p s"
  by (induction s) (simp_all add: is_prefix_iff sublist_Cons_right)

lemma str_in_set: "str_in p s \<Longrightarrow> set p \<subseteq> set s"
  by (simp add: str_in_iff set_mono_sublist)

lemma str_in_whitespace:
  assumes "\<forall>x \<in> set s. is_space x" and "c \<in> set p" and "\<not> is_space c"
  shows "\<not> str_in p s"
  using assms str_in_set by blast

lemma lower_char_space: "is_space c \<Longrightarrow> lower_char c = c"
  by (auto simp: is_space_def lower_char_def Let_def)

lemma lower_whitespace: "\<forall>x \<in> set s. is_space x \<Longrightarrow> lower s = s"
  by (simp add: lower_def lower_char_space map_idI)

lemma split_acc_whitespace: "\<forall>x \<in> set s. is_space x \<Longrightarrow> split_acc [] s = []"
  by (induction s) simp_all

lemma split_acc_nonempty:
  "cur \<noteq> [] \<or> (\<exists>c \<in> set s. \<not> is_space c) \<Longrightarrow> split_acc cur s \<noteq> []"
  by (induction s arbitrary: cur) auto

lemma strip_has_letter: "strip s \<noteq> [] \<Longrightarrow> \<exists>c \<in> set (strip s). \<not> is_space c"
proof -
  assume ne: "strip s \<noteq> []"
  let ?r = "dropWhile is_space (rev (dropWhile is_space s))"
  from ne have r: "?r \<noteq> []" by (simp add: strip_def)
  then have "\<not> is_space (hd ?r)" by (rule hd_dropWhile)
  moreover from r have "hd ?r \<in> set (strip s)" by (simp add: strip_def)
  ultimately show ?thesis by blast
qed

lemma split_strip_nonempty: "strip s \<noteq> [] \<Longrightarrow> split (strip s) \<noteq> []"
  unfolding split_def by (rule split_acc_nonempty) (simp add: strip_has_letter)

lemma not_space_pattern_chars:
  "\<not> is_space CHR '':''" "\<not> is_space CHR ''r''" "\<not> is_space CHR ''m''"
  "\<not> is_space CHR ''f''" "\<not> is_space CHR ''d''" "\<not> is_space CHR ''/''"
  "\<not> is_space CHR ''c''" "\<not> is_space CHR ''k''" "\<not> is_space CHR ''i''"
  "\<not> is_space CHR ''>''" "\<not> is_space CHR ''*''"
  by (simp_all add: is_space_def)

section \<open>The safety gate: verdicts\<close>

lemma default_gate_fields:
  "enabled default_gate" "\<not> sandbox_mode default_gate"
  "dangerous_commands default_gate = []" "sensitive_paths default_gate = []"
  by (simp_all add: default_gate_def SafetyGate_init_def empty_config_def)

lemma disabled_gate_off: "\<not> enabled disabled_gate"
  by (simp add: disabled_gate_def SafetyGate_init_def empty_config_def)

text \<open>
  The verdict of an enabled gate, check by check: the first check that matches decides.
\<close>

lemma evaluate_enabled_critical:
  "enabled g \<Longrightarrow> fst (is_critical_command g c) \<Longrightarrow>
   evaluate_command g c =
     \<lparr>allowed = False, risk_level = CRITICAL, reason = snd (is_critical_command g c),
      warnings = [''This command could destroy your system!'']\<rparr>"
  by (simp add: evaluate_command_def split_beta)

lemma evaluate_enabled_high:
  "enabled g \<Longrightarrow> \<not> fst (is_critical_command g c) \<Longrightarrow> fst (is_high_risk_command g c) \<Longrightarrow>
   evaluate_command g c =
     \<lparr>allowed = False, risk_level = HIGH, reason = snd (is_high_risk_command g c),
      warnings = [''This command is very dangerous!'']\<rparr>"
  by (simp add: evaluate_command_def split_beta)

lemma evaluate_enabled_medium:
  "enabled g \<Longrightarrow> \<not> fst (is_critical_command g c) \<Longrightarrow> \<not> fst (is_high_risk_command g c) \<Longrightarrow>
   fst (is_medium_risk_command g c) \<Longrightarrow>
   evaluate_command g c =
     \<lparr>allowed = True, risk_level = MEDIUM, reason = '''',
      warnings = [snd (is_medium_risk_command g c)]\<rparr>"
  by (simp add: evaluate_command_def split_beta)

lemma evaluate_enabled_confirm:
  "enabled g \<Longrightarrow> \<not> fst (is_critical_command g c) \<Longrightarrow> \<not> fst (is_high_risk_command g c) \<Longrightarrow>
   \<not> fst (is_medium_risk_command g c) \<Longrightarrow> fst (needs_confirmation g c) \<Longrightarrow>
   evaluate_command g c =
     \<lparr>allowed = True, risk_level = LOW, reason = '''',
      warnings = [snd (needs_confirmation g c)]\<rparr>"
  by (simp add: evaluate_command_def split_beta)

lemma evaluate_enabled_safe:
  "enabled g \<Longrightarrow> \<not> fst (is_critical_command g c) \<Longrightarrow> \<not> fst (is_high_risk_command g c) \<Longrightarrow>
   \<not> fst (is_medium_risk_command g c) \<Longrightarrow> \<not> fst (needs_confirmation g c) \<Longrightarrow>
   evaluate_command g c = \<lparr>allowed = True, risk_level = SAFE, reason = '''', warnings = []\<rparr>"
  by (simp add: evaluate_command_def split_beta)

lemma evaluate_disabled:
  "\<not> enabled g \<Longrightarrow>
   evaluate_command g c =
     \<lparr>allowed = True, risk_level = SAFE, reason = ''Safety gate disabled'', warnings = []\<rparr>"
  by (simp add: evaluate_command_def)

lemma critical_ignores_sensitive_paths:
  "is_critical_command (g\<lparr>sensitive_paths := sp\<rparr>) c = is_critical_command g c"
  by (simp add: is_critical_command_def Let_def)

lemma high_ignores_configuration:
  "is_high_risk_command (g\<lparr>sensitive_paths := sp\<rparr>) c = is_high_risk_command g c"
  by (simp add: is_high_risk_command_def Let_def)

lemma checks_ignore_sandbox_mode:
  "is_critical_command (g\<lparr>sandbox_mode := b\<rparr>) c = is_critical_command g c"
  "is_high_risk_command (g\<lparr>sandbox_mode := b\<rparr>) c = is_high_risk_command g c"
  "is_medium_risk_command (g\<lparr>sandbox_mode := b\<rparr>) c = is_medium_risk_command g c"
  "needs_confirmation (g\<lparr>sandbox_mode := b\<rparr>) c = needs_confirmation g c"
  by (simp_all add: is_critical_command_def is_high_risk_command_def
      is_medium_risk_command_def needs_confirmation_def Let_def)

text \<open>
  Claim C2. With the default configuration, \<^verbatim>\<open>rm -rf foo\<close> is classified HIGH and blocked
  as a recursive delete, while \<^verbatim>\<open>rm -rf sub/dir\<close> is not HIGH: it falls through to the
  confirmation check and is allowed with risk LOW. In general the high-risk check answers
  "Recursive delete detected" exactly when the command contains \<^verbatim>\<open>rm -rf\<close> or
  \<^verbatim>\<open>rm -fr\<close> and no path separator.
\<close>

theorem C2_recursive_delete_needs_no_separator:
  "evaluate_command (SafetyGate_init None) ''rm -rf foo'' =
     \<lparr>allowed = False, risk_level = HIGH, reason = ''Recursive delete detected'',
      warnings = [''This command is very dangerous!'']\<rparr>
   \<and> evaluate_command (SafetyGate_init None) ''rm -rf sub/dir'' =
     \<lparr>allowed = True, risk_level = LOW, reason = '''',
      warnings = [[CHR 0x27] @ ''rm'' @ [CHR 0x27] @ '' command requires confirmation'']\<rparr>
   \<and> (is_high_risk_command g c = (True, ''Recursive delete detected'')
        \<longleftrightarrow> (str_in ''rm -rf'' c \<or> str_in ''rm -fr'' c) \<and> \<not> str_in ''/'' c)"
proof -
  have foo: "evaluate_command (SafetyGate_init None) ''rm -rf foo'' =
     \<lparr>allowed = False, risk_level = HIGH, reason = ''Recursive delete detected'',
      warnings = [''This command is very dangerous!'']\<rparr>"
    by code_simp
  have subdir: "evaluate_command (SafetyGate_init None) ''rm -rf sub/dir'' =
     \<lparr>allowed = True, risk_level = LOW, reason = '''',
      warnings = [[CHR 0x27] @ ''rm'' @ [CHR 0x27] @ '' command requires confirmation'']\<rparr>"
    by code_simp
  have rule: "is_high_risk_command g c = (True, ''Recursive delete detected'')
        \<longleftrightarrow> (str_in ''rm -rf'' c \<or> str_in ''rm -fr'' c) \<and> \<not> str_in ''/'' c"
    by (simp add: is_high_risk_command_def Let_def)
  from foo subdir rule show ?thesis by blast
qed

text \<open>
  Claim C3, as stated, fails: the claim speaks of every configuration, and a gate that is
  configured off classifies nothing. \<^verbatim>\<open>rm -rf / *\<close> matches the CRITICAL pattern
  \<^verbatim>\<open>rm -rf /\<close> and the MEDIUM wildcard-delete pattern, and the disabled gate answers SAFE.
\<close>

theorem C3_disabled_gate_counterexample:
  "fst (is_critical_command disabled_gate ''rm -rf / *'')
   \<and> fst (is_medium_risk_command disabled_gate ''rm -rf / *'')
   \<and> risk_level (evaluate_command disabled_gate ''rm -rf / *'') = SAFE"
  by code_simp

text \<open>
  Claim C3, amended: with the classifier enabled, for every command and every list of
  dangerous commands and sensitive paths, the checks are tried in the order CRITICAL, HIGH,
  MEDIUM, confirmation, SAFE and the first match decides the verdict: a command that
  matches a CRITICAL pattern is CRITICAL whatever the later checks say (so also when it
  matches a MEDIUM pattern), a HIGH verdict needs the CRITICAL check to have failed, and so
  on down to SAFE. The later checks have no say once an earlier one matched: the verdict on
  a CRITICAL or HIGH match is the same under every list of sensitive paths, the only
  configuration the MEDIUM check reads.
\<close>

theorem C3_first_match_wins_when_enabled:
  assumes "enabled g"
  shows
   "(fst (is_critical_command g c) \<longrightarrow>
       evaluate_command g c =
         \<lparr>allowed = False, risk_level = CRITICAL, reason = snd (is_critical_command g c),
          warnings = [''This command could destroy your system!'']\<rparr>)
    \<and> (\<not> fst (is_critical_command g c) \<and> fst (is_high_risk_command g c) \<longrightarrow>
       evaluate_command g c =
         \<lparr>allowed = False, risk_level = HIGH, reason = snd (is_high_risk_command g c),
          warnings = [''This command is very dangerous!'']\<rparr>)
    \<and> (\<not> fst (is_critical_command g c) \<and> \<not> fst (is_high_risk_command g c)
        \<and> fst (is_medium_risk_command g c) \<longrightarrow>
       evaluate_command g c =
         \<lparr>allowed = True, risk_level = MEDIUM, reason = '''',
          warnings = [snd (is_medium_risk_command g c)]\<rparr>)
    \<and> (\<not> fst (is_critical_command g c) \<and> \<not> fst (is_high_risk_command g c)
        \<and> \<not> fst (is_medium_risk_command g c) \<and> fst (needs_confirmation g c) \<longrightarrow>
       evaluate_command g c =
         \<lparr>allowed = True, risk_level = LOW, reason = '''',
          warnings = [snd (needs_confirmation g c)]\<rparr>)
    \<and> (\<not> fst (is_critical_command g c) \<and> \<not> fst (is_high_risk_command g c)
        \<and> \<not> fst (is_medium_risk_command g c) \<and> \<not> fst (needs_confirmation g c) \<longrightarrow>
       evaluate_command g c =
         \<lparr>allowed = True, risk_level = SAFE, reason = '''', warnings = []\<rparr>)
    \<and> (fst (is_critical_command g c) \<or> fst (is_high_risk_command g c) \<longrightarrow>
       evaluate_command (g\<lparr>sensitive_paths := sp\<rparr>) c = evaluate_command g c)"
proof -
  have indep: "evaluate_command (g\<lparr>sensitive_paths := sp\<rparr>) c = evaluate_command g c"
    if "fst (is_critical_command g c) \<or> fst (is_high_risk_command g c)"
    using that
    by (auto simp: evaluate_command_def critical_ignores_sensitive_paths
        high_ignores_configuration split_beta)
  from assms indep show ?thesis
    by (simp add: evaluate_enabled_critical evaluate_enabled_high evaluate_enabled_medium
        evaluate_enabled_confirm evaluate_enabled_safe)
qed

theorem C3_first_match_wins_witness:
  "enabled default_gate
   \<and> fst (is_critical_command default_gate ''rm -rf / *'')
   \<and> fst (is_medium_risk_command default_gate ''rm -rf / *'')
   \<and> evaluate_command default_gate ''rm -rf / *'' =
       \<lparr>allowed = False, risk_level = CRITICAL,
        reason = ''Attempting to delete root directory'',
        warnings = [''This command could destroy your system!'']\<rparr>"
proof -
  have en: "enabled default_gate" by (rule default_gate_fields)
  have crit: "is_critical_command default_gate ''rm -rf / *'' =
      (True, ''Attempting to delete root directory'')"
    by code_simp
  have med: "fst (is_medium_risk_command default_gate ''rm -rf / *'')"
    by code_simp
  from C3_first_match_wins_when_enabled [OF en, of "''rm -rf / *''"] crit
  have "evaluate_command default_gate ''rm -rf / *'' =
       \<lparr>allowed = False, risk_level = CRITICAL,
        reason = ''Attempting to delete root directory'',
        warnings = [''This command could destroy your system!'']\<rparr>"
    by simp
  with en crit med show ?thesis by simp
qed

text \<open>
  Claim C4. A gate that is configured off allows every command with risk SAFE, also one
  that an enabled gate calls CRITICAL, and nothing else bypasses the classification: a
  command that matches a CRITICAL or HIGH check is allowed if and only if the gate is
  off, and the sandbox flag does not change any verdict. (The \<^verbatim>\<open>context\<close> argument of
  \<^verbatim>\<open>evaluate_command\<close> is never read, so the model leaves it out.)
\<close>

theorem C4_disabled_gate_is_the_only_bypass:
  "(\<not> enabled g \<longrightarrow>
      evaluate_command g c =
        \<lparr>allowed = True, risk_level = SAFE, reason = ''Safety gate disabled'', warnings = []\<rparr>)
   \<and> (fst (is_critical_command g c) \<or> fst (is_high_risk_command g c) \<longrightarrow>
        (allowed (evaluate_command g c) \<longleftrightarrow> \<not> enabled g))
   \<and> evaluate_command (g\<lparr>sandbox_mode := b\<rparr>) c = evaluate_command g c"
proof -
  have blocked: "allowed (evaluate_command g c) \<longleftrightarrow> \<not> enabled g"
    if "fst (is_critical_command g c) \<or> fst (is_high_risk_command g c)"
    using that by (auto simp: evaluate_command_def split_beta)
  have sandbox: "evaluate_command (g\<lparr>sandbox_mode := b\<rparr>) c = evaluate_command g c"
    unfolding evaluate_command_def checks_ignore_sandbox_mode by simp
  from blocked sandbox show ?thesis by (simp add: evaluate_disabled)
qed

theorem C4_disabled_gate_witness:
  "\<not> enabled disabled_gate
   \<and> fst (is_critical_command disabled_gate ''rm -rf /'')
   \<and> evaluate_command disabled_gate ''rm -rf /'' =
       \<lparr>allowed = True, risk_level = SAFE, reason = ''Safety gate disabled'', warnings = []\<rparr>
   \<and> enabled default_gate
   \<and> fst (is_critical_command default_gate ''rm -rf /'')
   \<and> \<not> allowed (evaluate_command default_gate ''rm -rf /'')"
proof -
  have off: "\<not> enabled disabled_gate" by (rule disabled_gate_off)
  have on: "enabled default_gate" by (rule default_gate_fields)
  have crit_off: "fst (is_critical_command disabled_gate ''rm -rf /'')" by code_simp
  have crit_on: "fst (is_critical_command default_gate ''rm -rf /'')" by code_simp
  from C4_disabled_gate_is_the_only_bypass [of disabled_gate "''rm -rf /''"] off
  have a: "evaluate_command disabled_gate ''rm -rf /'' =
       \<lparr>allowed = True, risk_level = SAFE, reason = ''Safety gate disabled'', warnings = []\<rparr>"
    by simp
  from C4_disabled_gate_is_the_only_bypass [of default_gate "''rm -rf /''"] on crit_on
  have b: "\<not> allowed (evaluate_command default_gate ''rm -rf /'')"
    by simp
  from off on crit_off crit_on a b show ?thesis by simp
qed

text \<open>
  Claim C10. With the classifier enabled and no configured dangerous commands or sensitive
  paths, a command that is empty or consists of whitespace only is SAFE and allowed, with
  no warning: no pattern occurs in it, and the confirmation check finds no token.
\<close>

theorem C10_blank_command_is_safe:
  assumes ws: "\<forall>ch \<in> set c. is_space ch"
    and en: "enabled g" and dc: "dangerous_commands g = []" and sp: "sensitive_paths g = []"
  shows "split (lower c) = []
         \<and> needs_confirmation g c = (False, '''')
         \<and> evaluate_command g c =
             \<lparr>allowed = True, risk_level = SAFE, reason = '''', warnings = []\<rparr>"
proof -
  have lw: "lower c = c" using ws by (rule lower_whitespace)
  have no: "\<not> str_in p c" if "\<exists>x \<in> set p. \<not> is_space x" for p
    using that ws str_in_whitespace by blast
  have tokens: "split (lower c) = []"
    by (simp add: lw split_def split_acc_whitespace ws)
  have crit: "is_critical_command g c = (False, '''')"
    by (simp add: is_critical_command_def lw no not_space_pattern_chars dc)
  have high: "is_high_risk_command g c = (False, '''')"
    by (simp add: is_high_risk_command_def lw no not_space_pattern_chars)
  have med: "is_medium_risk_command g c = (False, '''')"
    by (simp add: is_medium_risk_command_def lw no not_space_pattern_chars sp)
  have conf: "needs_confirmation g c = (False, '''')"
    by (simp add: needs_confirmation_def tokens)
  show ?thesis
    by (simp add: evaluate_command_def en crit high med conf tokens)
qed

theorem C10_blank_command_witness:
  "list_all is_space ('' '' @ [CHR 0x09] @ '' '')
   \<and> enabled default_gate \<and> dangerous_commands default_gate = []
   \<and> sensitive_paths default_gate = []
   \<and> evaluate_command default_gate ('' '' @ [CHR 0x09] @ '' '') =
       \<lparr>allowed = True, risk_level = SAFE, reason = '''', warnings = []\<rparr>
   \<and> evaluate_command default_gate '''' =
       \<lparr>allowed = True, risk_level = SAFE, reason = '''', warnings = []\<rparr>"
proof -
  have ws: "\<forall>ch \<in> set ('' '' @ [CHR 0x09] @ '' ''). is_space ch"
    by (simp add: is_space_def)
  have emp: "\<forall>ch \<in> set ''''. is_space ch" by simp
  note g = default_gate_fields(1) default_gate_fields(3) default_gate_fields(4)
  from C10_blank_command_is_safe [OF ws g] C10_blank_command_is_safe [OF emp g] ws g
  show ?thesis by (simp add: list_all_iff)
qed

section \<open>The translation never raises\<close>

lemma py_index_0: "xs \<noteq> [] \<Longrightarrow> py_index xs 0 = Inr (hd xs)"
  by (cases xs) (simp_all add: py_index_def)

lemma py_index_1: "2 \<le> length xs \<Longrightarrow> py_index xs 1 = Inr (xs ! 1)"
  by (simp add: py_index_def)

lemma py_index_last: "xs \<noteq> [] \<Longrightarrow> py_index xs (- 1) = Inr (last xs)"
  by (cases xs rule: rev_cases) (simp_all add: py_index_def nth_append)

lemma bind_error_Inr: "bind_error (Inr x) f = f x"
  by (simp add: bind_error_def)

lemma is_linux_command_total:
  "is_linux_command c =
     Inr (case leading_token c of None \<Rightarrow> False | Some w \<Rightarrow> w \<in> set linux_commands)"
proof (cases "strip c = []")
  case True
  then show ?thesis
    by (simp add: is_linux_command_def bind_error_def leading_token_def split_def
        linux_commands_def)
next
  case False
  then have "split (strip c) \<noteq> []" by (rule split_strip_nonempty)
  with False show ?thesis
    by (cases "split (strip c)")
      (simp_all add: is_linux_command_def bind_error_def leading_token_def py_index_0)
qed

lemma translate_total: "\<exists>s. translate_to_windows c = Inr s"
  by (simp add: translate_to_windows_def Let_def bind_error_def py_index_0 py_index_1
      py_index_last)




lemma usage_one_argument:
  \<open>split (strip c) = [''cat''] \<Longrightarrow>
     translate_to_windows c = Inr ''Write-Host "cat: missing file name"''\<close>
  \<open>split (strip c) = [''head''] \<Longrightarrow>
     translate_to_windows c = Inr ''Write-Host "head: missing file name"''\<close>
  \<open>split (strip c) = [''tail''] \<Longrightarrow>
     translate_to_windows c = Inr ''Write-Host "tail: missing file name"''\<close>
  \<open>split (strip c) = [''touch''] \<Longrightarrow>
     translate_to_windows c = Inr ''Write-Host "touch: missing file name"''\<close>
  \<open>split (strip c) = [''mkdir''] \<Longrightarrow>
     translate_to_windows c = Inr ''Write-Host "mkdir: missing directory name"''\<close>
  \<open>split (strip c) = [''rm''] \<Longrightarrow>
     translate_to_windows c = Inr ''Write-Host "rm: missing file name"''\<close>
  \<open>split (strip c) = [''kill''] \<Longrightarrow>
     translate_to_windows c = Inr ''Write-Host "kill: missing process ID"''\<close>
  \<open>split (strip c) = [''grep''] \<Longrightarrow>
     translate_to_windows c = Inr ''Write-Host "grep: missing search pattern"''\<close>
  \<open>split (strip c) = [''wc''] \<Longrightarrow>
     translate_to_windows c = Inr ''Write-Host "wc: missing file name"''\<close>
  by (simp_all add: translate_to_windows_def bind_error_def py_index_0)

lemma usage_two_arguments:
  \<open>split (strip c) = ''cp'' # args \<Longrightarrow> length args < 2 \<Longrightarrow>
     translate_to_windows c = Inr ''Write-Host "cp: need source and destination"''\<close>
  \<open>split (strip c) = ''mv'' # args \<Longrightarrow> length args < 2 \<Longrightarrow>
     translate_to_windows c = Inr ''Write-Host "mv: need source and destination"''\<close>
  by (simp_all add: translate_to_windows_def bind_error_def py_index_0)

lemma usage_messages:
  \<open>usage_error_for ''cat'' ''Write-Host "cat: missing file name"''\<close>
  \<open>usage_error_for ''head'' ''Write-Host "head: missing file name"''\<close>
  \<open>usage_error_for ''tail'' ''Write-Host "tail: missing file name"''\<close>
  \<open>usage_error_for ''touch'' ''Write-Host "touch: missing file name"''\<close>
  \<open>usage_error_for ''mkdir'' ''Write-Host "mkdir: missing directory name"''\<close>
  \<open>usage_error_for ''rm'' ''Write-Host "rm: missing file name"''\<close>
  \<open>usage_error_for ''kill'' ''Write-Host "kill: missing process ID"''\<close>
  \<open>usage_error_for ''grep'' ''Write-Host "grep: missing search pattern"''\<close>
  \<open>usage_error_for ''wc'' ''Write-Host "wc: missing file name"''\<close>
  \<open>usage_error_for ''cp'' ''Write-Host "cp: need source and destination"''\<close>
  \<open>usage_error_for ''mv'' ''Write-Host "mv: need source and destination"''\<close>
  by code_simp+

text \<open>
  Claim C9. When the leading token is a key of the table and the command has fewer
  arguments than the entry asks for (one for \<^verbatim>\<open>cat\<close>, \<^verbatim>\<open>head\<close>, \<^verbatim>\<open>tail\<close>, \<^verbatim>\<open>touch\<close>,
  \<^verbatim>\<open>mkdir\<close>, \<^verbatim>\<open>rm\<close>, \<^verbatim>\<open>kill\<close>, \<^verbatim>\<open>grep\<close> and \<^verbatim>\<open>wc\<close>, two for \<^verbatim>\<open>cp\<close> and \<^verbatim>\<open>mv\<close>), the
  translation does not raise: it returns a \<^verbatim>\<open>Write-Host\<close> command that prints a usage
  message naming the Linux command.
\<close>

theorem C9_missing_arguments_give_usage_error:
  assumes "split (strip c) = tok # args"
    and "tok \<in> set linux_commands"
    and "length args < required_args tok"
  shows "\<exists>s. translate_to_windows c = Inr s \<and> usage_error_for tok s"
proof -
  from assms(3) consider
    (two) "tok = ''cp'' \<or> tok = ''mv''" "length args < 2"
  | (one) "tok \<in> set [''cat'', ''head'', ''tail'', ''touch'', ''mkdir'', ''rm'', ''kill'',
                       ''grep'', ''wc'']" "args = []"
    by (auto simp: required_args_def split: if_splits)
  then show ?thesis
  proof cases
    case two
    with assms(1) show ?thesis
      by (auto simp: usage_two_arguments usage_messages)
  next
    case one
    with assms(1) show ?thesis
      by (auto simp: usage_one_argument usage_messages)
  qed
qed

theorem C9_missing_arguments_witness:
  \<open>split (strip ''cp a'') = [''cp'', ''a'']
   \<and> ''cp'' \<in> set linux_commands
   \<and> length [''a''] < required_args ''cp''
   \<and> translate_to_windows ''cp a'' = Inr ''Write-Host "cp: need source and destination"''
   \<and> usage_error_for ''cp'' ''Write-Host "cp: need source and destination"''\<close>
proof -
  have parts: \<open>split (strip ''cp a'') = [''cp'', ''a'']\<close>
    by code_simp
  have key: \<open>''cp'' \<in> set linux_commands\<close>
    by (simp add: linux_commands_def)
  have few: \<open>length [''a''] < required_args ''cp''\<close>
    by (simp add: required_args_def)
  have run: \<open>translate_to_windows ''cp a'' = Inr ''Write-Host "cp: need source and destination"''\<close>
    by code_simp
  from C9_missing_arguments_give_usage_error [OF parts key few] run
  have \<open>usage_error_for ''cp'' ''Write-Host "cp: need source and destination"''\<close>
    by simp
  with parts key few run show ?thesis by simp
qed


section \<open>The executor: what a call returns\<close>

lemma or_empty_simps: "or_empty None = []" "or_empty (Some x) = x"
  by (simp_all add: or_empty_def)


lemma translate_step:
  "bind_error (is_linux_command c)
     (\<lambda>tr. bind_error (if tr then translate_to_windows c else Inr c) f) = f (translated c)"
proof -
  obtain s where s: "translate_to_windows c = Inr s" using translate_total by blast
  show ?thesis
    by (simp add: is_linux_command_total bind_error_def s translated_def split: option.splits)
qed

lemma effective_timeout_idem:
  "effective_timeout self (Some (effective_timeout self to)) = effective_timeout self to"
  by (simp add: effective_timeout_def split: option.splits)

lemma not_effective_Some_False: "\<not> effective_use_wsl self (Some False)"
  by (simp add: effective_use_wsl_def)

text \<open>A call that ends up on PowerShell spawns once and never calls itself.\<close>

lemma execute_native:
  assumes "\<not> effective_use_wsl self uw"
  shows "execute os (self, t) c wd to cap uw =
     Inr (outcome_result os self t c (effective_timeout self to)
            (popen os (t + 1) (powershell_argv c) cap wd (effective_timeout self to)))"
proof -
  have u: "(if (case uw of None \<Rightarrow> self_use_wsl self | Some b \<Rightarrow> b) \<and> \<not> wsl_available self
            then False else (case uw of None \<Rightarrow> self_use_wsl self | Some b \<Rightarrow> b)) = False"
    using assms by (auto simp: effective_use_wsl_def)
  show ?thesis
    apply (subst execute.simps)
    apply (unfold Let_def u)
    apply (simp only: if_True if_False translate_step simp_thms)
    apply (fold effective_timeout_def)
    apply (simp add: powershell_argv_def result_of_def logged_def timeout_notice_def
        outcome_result_def or_empty_simps split: proc_outcome.splits)
    done
qed

lemma execute_retry:
  "execute os (self, t) c wd (Some (effective_timeout self to)) cap (Some False) =
     Inr (outcome_result os self t c (effective_timeout self to)
            (popen os (t + 1) (powershell_argv c) cap wd (effective_timeout self to)))"
  using execute_native [OF not_effective_Some_False, of os self t c wd
      "Some (effective_timeout self to)" cap]
  by (simp add: effective_timeout_idem)

text \<open>A call that ends up on WSL spawns once and either returns or hands over to the retry.\<close>

lemma execute_wsl:
  assumes "effective_use_wsl self uw"
  shows "execute os (self, t) c wd to cap uw =
     (if fallback_fires os (self, t) c wd to cap uw
      then execute os (self, t + 1) c wd (Some (effective_timeout self to)) cap (Some False)
      else Inr (outcome_result os self t c (effective_timeout self to)
                  (popen os (t + 1) (wsl_argv c) cap wd (effective_timeout self to))))"
proof -
  have u: "(if (case uw of None \<Rightarrow> self_use_wsl self | Some b \<Rightarrow> b) \<and> \<not> wsl_available self
            then False else (case uw of None \<Rightarrow> self_use_wsl self | Some b \<Rightarrow> b)) = True"
    using assms by (auto simp: effective_use_wsl_def)
  obtain r where r:
    "execute os (self, Suc t) c wd (Some (effective_timeout self to)) cap (Some False) = Inr r"
    using execute_retry [of os self "Suc t" c wd to cap] by blast
  show ?thesis
    apply (subst execute.simps)
    apply (unfold Let_def u)
    apply (simp only: if_True if_False bind_error_Inr simp_thms)
    apply (fold effective_timeout_def)
    apply (simp add: r assms wsl_argv_def result_of_def logged_def timeout_notice_def
        outcome_result_def or_empty_simps fallback_fires_def first_attempt_def
        split: proc_outcome.splits)
    done
qed

lemma first_attempt_native:
  "\<not> effective_use_wsl self uw \<Longrightarrow>
   first_attempt os (self, t) c wd to cap uw =
     popen os (t + 1) (powershell_argv c) cap wd (effective_timeout self to)"
  by (simp add: first_attempt_def)

lemma first_attempt_wsl:
  "effective_use_wsl self uw \<Longrightarrow>
   first_attempt os (self, t) c wd to cap uw =
     popen os (t + 1) (wsl_argv c) cap wd (effective_timeout self to)"
  by (simp add: first_attempt_def)

lemma execute_no_fallback:
  assumes "\<not> fallback_fires os (self, t) c wd to cap uw"
  shows "execute os (self, t) c wd to cap uw =
     Inr (outcome_result os self t c (effective_timeout self to)
            (first_attempt os (self, t) c wd to cap uw))"
proof (cases "effective_use_wsl self uw")
  case True
  with assms show ?thesis by (simp add: execute_wsl first_attempt_wsl)
next
  case False
  then show ?thesis by (simp add: execute_native first_attempt_native)
qed

lemma execute_fallback:
  assumes "fallback_fires os (self, t) c wd to cap uw"
  shows "execute os (self, t) c wd to cap uw =
     execute os (self, t + 1) c wd (Some (effective_timeout self to)) cap (Some False)"
proof -
  from assms have "effective_use_wsl self uw" by (simp add: fallback_fires_def)
  with assms show ?thesis by (simp add: execute_wsl)
qed

text \<open>\<^verbatim>\<open>execute\<close> never raises: the translation before the \<^verbatim>\<open>try\<close> cannot fail.\<close>

lemma execute_total: "\<exists>r self' t'. execute os (self, t) c wd to cap uw = Inr (r, self', t')"
proof (cases "fallback_fires os (self, t) c wd to cap uw")
  case True
  then show ?thesis
    by (simp add: execute_fallback execute_retry) (metis prod_cases3)
next
  case False
  then show ?thesis
    by (simp add: execute_no_fallback) (metis prod_cases3)
qed



lemma outcome_result_Raised:
  "outcome_result os self t c T (Raised msg) = (result_of os t c [] msg (- 1), self, t + 2)"
  by (simp add: outcome_result_def)



text \<open>The history grows by the returned dictionary, except when the deciding spawn raised.\<close>

lemma outcome_result_history:
  "outcome_result os self t c T oc = (r, self', t') \<Longrightarrow>
   self' = (case oc of Raised msg \<Rightarrow> self | Exited out err rc \<Rightarrow> logged r self
            | TimedOut out err rc \<Rightarrow> logged r self)"
  by (auto simp: outcome_result_def split: proc_outcome.splits)

lemma execute_history:
  assumes "execute os (self, t) c wd to cap uw = Inr (r, self', t')"
  shows "self' = self \<or> self' = logged r self"
proof (cases "fallback_fires os (self, t) c wd to cap uw")
  case True
  with assms have "outcome_result os self (Suc t) c (effective_timeout self to)
      (popen os (Suc (Suc t)) (powershell_argv c) cap wd (effective_timeout self to)) = (r, self', t')"
    by (simp add: execute_fallback execute_retry)
  from outcome_result_history [OF this] show ?thesis
    by (simp split: proc_outcome.splits)
next
  case False
  with assms have "outcome_result os self t c (effective_timeout self to)
      (first_attempt os (self, t) c wd to cap uw) = (r, self', t')"
    by (simp add: execute_no_fallback)
  from outcome_result_history [OF this] show ?thesis
    by (simp split: proc_outcome.splits)
qed

lemma execute_spawn_failure:
  assumes "first_attempt os (self, t) c wd to cap uw = Raised msg"
  shows "execute os (self, t) c wd to cap uw = Inr (result_of os t c [] msg (- 1), self, t + 2)"
proof -
  from assms have "\<not> fallback_fires os (self, t) c wd to cap uw"
    by (simp add: fallback_fires_def)
  with assms show ?thesis
    by (simp add: execute_no_fallback outcome_result_Raised)
qed

text \<open>
  Claim C1: the code departs from it. \<^verbatim>\<open>execute\<close> never raises (\<open>execute_total\<close>) and every
  dictionary has all eight keys, but the \<^verbatim>\<open>except\<close> branch returns its dictionary without
  appending it to \<open>execution_history\<close>, which the \<^verbatim>\<open>try\<close> branch does for every other
  outcome. With no backend to launch, the call below returns the failure dictionary and
  leaves the history of the fresh executor empty.
\<close>

theorem C1_spawn_failure_is_not_logged:
  "execute os_spawn_fails (executor_default, 0) ''dir'' None None True None =
     Inr (\<lparr>command = ''dir'', output = '''',
           error = ''[WinError 2] The system cannot find the file specified'',
           exit_code = - 1, success = False, duration = 1000,
           start_time = 0, end_time = 1000\<rparr>,
          executor_default, 2)
   \<and> execution_history executor_default = []"
  by code_simp






text \<open>
  Claim C7. When the call ran through WSL and its spawn ended with a return code other
  than 0 and a backend-missing signature in the error text, \<^verbatim>\<open>execute\<close> calls itself once
  with the command as the caller gave it and \<^verbatim>\<open>use_wsl=False\<close>, and returns what that call
  returns. The retry is one spawn of PowerShell on the translated command; it cannot fall
  back again, and its dictionary, a failure dictionary if its spawn raises, is all the
  caller gets.
\<close>

theorem C7_fallback_retries_once_through_powershell:
  assumes "fallback_fires os (self, t) c wd to cap uw"
  shows "execute os (self, t) c wd to cap uw =
           execute os (self, t + 1) c wd (Some (effective_timeout self to)) cap (Some False)
    \<and> execute os (self, t) c wd to cap uw =
           Inr (outcome_result os self (t + 1) c (effective_timeout self to)
                  (popen os (t + 2) (powershell_argv c) cap wd (effective_timeout self to)))
    \<and> \<not> fallback_fires os (self, t + 1) c wd (Some (effective_timeout self to)) cap (Some False)"
proof -
  have once: "\<not> fallback_fires os (self, t + 1) c wd (Some (effective_timeout self to)) cap
                  (Some False)"
    by (simp add: fallback_fires_def not_effective_Some_False)
  from assms once show ?thesis
    by (simp add: execute_fallback execute_retry)
qed

theorem C7_fallback_witness:
  "fallback_fires os_wsl_missing (executor_wsl, 0) ''ls'' None None True None
   \<and> powershell_argv ''ls'' = [''powershell.exe'', ''-Command'', ''Get-ChildItem'']
   \<and> execute os_wsl_missing (executor_wsl, 0) ''ls'' None None True None =
       Inr (\<lparr>command = ''ls'', output = ''a.txt'', error = '''', exit_code = 0,
             success = True, duration = 1000, start_time = 1000, end_time = 2000\<rparr>,
            logged \<lparr>command = ''ls'', output = ''a.txt'', error = '''', exit_code = 0,
                    success = True, duration = 1000, start_time = 1000, end_time = 2000\<rparr>
              executor_wsl,
            3)"
proof -
  have f: "fallback_fires os_wsl_missing (executor_wsl, 0) ''ls'' None None True None"
    by code_simp
  have argv: "powershell_argv ''ls'' = [''powershell.exe'', ''-Command'', ''Get-ChildItem'']"
    by code_simp
  have retry: "outcome_result os_wsl_missing executor_wsl (0 + 1) ''ls''
        (effective_timeout executor_wsl None)
        (popen os_wsl_missing (0 + 2) (powershell_argv ''ls'') True None
           (effective_timeout executor_wsl None)) =
       (\<lparr>command = ''ls'', output = ''a.txt'', error = '''', exit_code = 0,
             success = True, duration = 1000, start_time = 1000, end_time = 2000\<rparr>,
            logged \<lparr>command = ''ls'', output = ''a.txt'', error = '''', exit_code = 0,
                    success = True, duration = 1000, start_time = 1000, end_time = 2000\<rparr>
              executor_wsl,
            3)"
    by code_simp
  from C7_fallback_retries_once_through_powershell [OF f]
  have "execute os_wsl_missing (executor_wsl, 0) ''ls'' None None True None =
      Inr (outcome_result os_wsl_missing executor_wsl (0 + 1) ''ls''
        (effective_timeout executor_wsl None)
        (popen os_wsl_missing (0 + 2) (powershell_argv ''ls'') True None
           (effective_timeout executor_wsl None)))"
    by blast
  with retry f argv show ?thesis by simp
qed

end
